theory Spec2Isabelle
  imports Complex_Main "HOL-Library.AList"
begin

section \<open>Python values, references and errors\<close>

text \<open>
  Objects are heap references. A weak reference (\<^verbatim>\<open>weakref.ref\<close>) stores the
  reference only; calling it yields the object while the object is in the set of live
  objects and \<^verbatim>\<open>None\<close> afterwards.
\<close>

type_synonym ref = nat

datatype pyerror =
    IndexError
  | KeyError
  | TypeError
  | AssertionError
  | Exception string

definition deref :: "ref set \<Rightarrow> ref \<Rightarrow> ref option" where
  "deref live r = (if r \<in> live then Some r else None)"

text \<open>
  The values the call adapters handle: \<^verbatim>\<open>None\<close>, an instance, a callable that is
  not a bound method (a function, whose call the runner below gives), a bound method
  (\<^verbatim>\<open>types.MethodType\<close>, with \<^verbatim>\<open>__func__\<close> and \<^verbatim>\<open>__self__\<close>), a
  \<^verbatim>\<open>classmethod\<close> or \<^verbatim>\<open>staticmethod\<close> object (it has \<^verbatim>\<open>__func__\<close> but is not a
  bound method), or any other datum. A bound method holds its instance strongly.
\<close>

datatype ('f, 'a) pyval =
    PyNone
  | PyObj ref
  | PyFunction 'f
  | PyMethod 'f ref
  | PyWrapped 'f
  | PyVal 'a

type_synonym ('f, 'a) kwargs = "(string \<times> ('f, 'a) pyval) list"

text \<open>
  What running a function body does is left to the caller of the model: \<open>run f args kw w\<close>
  is the outcome of \<^verbatim>\<open>f(*args, **kw)\<close> in the world \<open>w\<close>, an error or a value together
  with the world the body leaves behind.
\<close>

type_synonym ('f, 'a, 'w) runner =
  "'f \<Rightarrow> ('f, 'a) pyval list \<Rightarrow> ('f, 'a) kwargs \<Rightarrow> 'w \<Rightarrow> (pyerror + ('f, 'a) pyval) \<times> 'w"

text \<open>
  A function body for concrete evaluation, \<^verbatim>\<open>def f(*args, **kw)\<close>: it accepts any
  arguments, appends its call to the world, which is a log, and returns \<^verbatim>\<open>None\<close>.
\<close>

type_synonym call_log = "(string \<times> (string, int) pyval list \<times> (string, int) kwargs) list"

definition logging_run :: "(string, int, call_log) runner" where
  "logging_run f as kw w = (Inr PyNone, w @ [(f, as, kw)])"

text \<open>\<^verbatim>\<open>hasattr(v, '__func__')\<close>.\<close>

fun has_func :: "('f, 'a) pyval \<Rightarrow> bool" where
  "has_func (PyMethod f obj) = True"
| "has_func (PyWrapped f) = True"
| "has_func v = False"

text \<open>
  The methods of the adapters are declared \<^verbatim>\<open>(self, *args, **keywds)\<close>: a call that
  passes a keyword named \<^verbatim>\<open>self\<close> cannot bind its arguments and raises
  \<^verbatim>\<open>TypeError\<close> before the body runs.
\<close>

definition has_keyword_self :: "('f, 'a) kwargs \<Rightarrow> bool" where
  "has_keyword_self kw = (''self'' \<in> set (map fst kw))"

text \<open>
  \<^verbatim>\<open>v(*args, **kw)\<close>: a bound method passes its instance first; a value that is not
  callable raises \<^verbatim>\<open>TypeError\<close> (a \<^verbatim>\<open>classmethod\<close> object is not callable, nor was
  a \<^verbatim>\<open>staticmethod\<close> object in the Python of this code).
\<close>

fun call_value ::
  "('f, 'a, 'w) runner \<Rightarrow> ('f, 'a) pyval \<Rightarrow> ('f, 'a) pyval list \<Rightarrow> ('f, 'a) kwargs \<Rightarrow> 'w
    \<Rightarrow> (pyerror + ('f, 'a) pyval) \<times> 'w" where
  "call_value run (PyFunction f) args kw w = run f args kw w"
| "call_value run (PyMethod f obj) args kw w = run f (PyObj obj # args) kw w"
| "call_value run v args kw w = (Inl TypeError, w)"

section \<open>\<^verbatim>\<open>ba/_general.py\<close>: call adapters\<close>

subsection \<open>\<^verbatim>\<open>WeakMethod\<close>\<close>

text \<open>Fields \<^verbatim>\<open>_func\<close> and \<^verbatim>\<open>_obj\<close>; the latter is a weak reference.\<close>

record 'f WeakMethod =
  func :: 'f
  obj :: ref

text \<open>
  \<^verbatim>\<open>WeakMethod.__init__\<close>: the assertion admits bound methods only, and
  \<^verbatim>\<open>weakref.ref\<close> raises \<^verbatim>\<open>TypeError\<close> for an instance that cannot be weakly
  referenced (one outside \<open>weakrefable\<close>, such as an instance of a class with
  \<^verbatim>\<open>__slots__\<close> and no \<^verbatim>\<open>__weakref__\<close> slot).
\<close>

fun WeakMethod_init :: "ref set \<Rightarrow> ('f, 'a) pyval \<Rightarrow> pyerror + 'f WeakMethod" where
  "WeakMethod_init weakrefable (PyMethod f self) =
     (if self \<in> weakrefable then Inr \<lparr>func = f, obj = self\<rparr> else Inl TypeError)"
| "WeakMethod_init weakrefable v = Inl AssertionError"

text \<open>
  \<^verbatim>\<open>WeakMethod.__call__(self, *args, **keywds)\<close>: the arguments are bound first, then
  the weak reference is called.
\<close>

definition WeakMethod_call ::
  "('f, 'a, 'w) runner \<Rightarrow> ref set \<Rightarrow> 'f WeakMethod \<Rightarrow> ('f, 'a) pyval list \<Rightarrow> ('f, 'a) kwargs
    \<Rightarrow> 'w \<Rightarrow> (pyerror + ('f, 'a) pyval) \<times> 'w" where
  "WeakMethod_call run live m args keywds w =
     (if has_keyword_self keywds then (Inl TypeError, w)
      else
        (case deref live (obj m) of
           None \<Rightarrow> (Inr PyNone, w)
         | Some ob \<Rightarrow> run (func m) ([PyObj ob] @ args) keywds w))"

subsection \<open>\<^verbatim>\<open>_WeakCall\<close> (exported as \<^verbatim>\<open>WeakCall\<close>)\<close>

text \<open>
  \<^verbatim>\<open>_call\<close> is either a \<^verbatim>\<open>WeakMethod\<close> or the first argument itself, held
  strongly. The constructor, \<^verbatim>\<open>__init__(self, *args, **keywds)\<close>, reads and sets
  \<^verbatim>\<open>app.did_weak_call_warning\<close> and prints a warning the first time it is given
  something without \<^verbatim>\<open>__func__\<close>.
\<close>

datatype ('f, 'a) weak_target =
    Weak "'f WeakMethod"
  | Strong "('f, 'a) pyval"

record ('f, 'a) WeakCall =
  wcall :: "('f, 'a) weak_target"
  wargs :: "('f, 'a) pyval list"
  wkeywds :: "('f, 'a) kwargs"

datatype ('f, 'a) printed = Weak_call_warning "('f, 'a) pyval"

definition WeakCall_init ::
  "ref set \<Rightarrow> bool \<Rightarrow> ('f, 'a) pyval list \<Rightarrow> ('f, 'a) kwargs
    \<Rightarrow> pyerror + (('f, 'a) WeakCall \<times> bool \<times> ('f, 'a) printed list)" where
  "WeakCall_init weakrefable did_weak_call_warning args keywds =
     (if has_keyword_self keywds then Inl TypeError
      else
        (case args of
           [] \<Rightarrow> Inl IndexError
         | c # rest \<Rightarrow>
             if has_func c then
               (case WeakMethod_init weakrefable c of
                  Inl e \<Rightarrow> Inl e
                | Inr m \<Rightarrow>
                    Inr (\<lparr>wcall = Weak m, wargs = rest, wkeywds = keywds\<rparr>,
                         did_weak_call_warning, []))
             else
               Inr (\<lparr>wcall = Strong c, wargs = rest, wkeywds = keywds\<rparr>,
                    True,
                    if \<not> did_weak_call_warning then [Weak_call_warning c] else [])))"

text \<open>\<^verbatim>\<open>_WeakCall.__call__(self, *args_extra)\<close>.\<close>

definition WeakCall_call ::
  "('f, 'a, 'w) runner \<Rightarrow> ref set \<Rightarrow> ('f, 'a) WeakCall \<Rightarrow> ('f, 'a) pyval list \<Rightarrow> 'w
    \<Rightarrow> (pyerror + ('f, 'a) pyval) \<times> 'w" where
  "WeakCall_call run live c args_extra w =
     (case wcall c of
        Weak m \<Rightarrow> WeakMethod_call run live m (wargs c @ args_extra) (wkeywds c) w
      | Strong v \<Rightarrow> call_value run v (wargs c @ args_extra) (wkeywds c) w)"

subsection \<open>\<^verbatim>\<open>_Call\<close> (exported as \<^verbatim>\<open>Call\<close>)\<close>

record ('f, 'a) Call =
  call :: "('f, 'a) pyval"
  args :: "('f, 'a) pyval list"
  keywds :: "('f, 'a) kwargs"

text \<open>\<^verbatim>\<open>_Call.__init__(self, *args, **keywds)\<close>.\<close>

definition Call_init :: "('f, 'a) pyval list \<Rightarrow> ('f, 'a) kwargs \<Rightarrow> pyerror + ('f, 'a) Call" where
  "Call_init as kw =
     (if has_keyword_self kw then Inl TypeError
      else
        (case as of
           [] \<Rightarrow> Inl IndexError
         | c # rest \<Rightarrow> Inr \<lparr>call = c, args = rest, keywds = kw\<rparr>))"

text \<open>\<^verbatim>\<open>_Call.__call__(self, *args_extra)\<close>.\<close>

definition Call_call ::
  "('f, 'a, 'w) runner \<Rightarrow> ('f, 'a) Call \<Rightarrow> ('f, 'a) pyval list \<Rightarrow> 'w
    \<Rightarrow> (pyerror + ('f, 'a) pyval) \<times> 'w" where
  "Call_call run c args_extra w = call_value run (call c) (args c @ args_extra) (keywds c) w"

text \<open>
  The expression \<^verbatim>\<open>Call(*args, **kw)(*args_extra)\<close> as a whole: construction, then the
  call.
\<close>

definition Call_then_call ::
  "('f, 'a, 'w) runner \<Rightarrow> ('f, 'a) pyval list \<Rightarrow> ('f, 'a) kwargs \<Rightarrow> ('f, 'a) pyval list \<Rightarrow> 'w
    \<Rightarrow> (pyerror + ('f, 'a) pyval) \<times> 'w" where
  "Call_then_call run as kw args_extra w =
     (case Call_init as kw of
        Inl e \<Rightarrow> (Inl e, w)
      | Inr c \<Rightarrow> Call_call run c args_extra w)"

section \<open>\<^verbatim>\<open>ba/_stats.py\<close>: scores and statistics\<close>

subsection \<open>Engine objects and what the code sends to the engine\<close>

text \<open>
  Floats are idealised as reals; they occur only in colours, scales and positions handed
  to the engine. A position is the engine's 3-vector, a colour a sequence of floats.
\<close>

type_synonym vec3 = "real \<times> real \<times> real"
type_synonym color = "real list"
type_synonym sound = string
type_synonym icon = "(string \<times> string) list"

text \<open>
  A \<^verbatim>\<open>ba.Player\<close> as the code reads it: \<^verbatim>\<open>get_name()\<close>, \<^verbatim>\<open>get_name(full=True)\<close>,
  \<^verbatim>\<open>get_name(full=True, icon=False)\<close>, \<^verbatim>\<open>team\<close>, \<^verbatim>\<open>team.color\<close>, \<^verbatim>\<open>character\<close>,
  \<^verbatim>\<open>color\<close> and \<^verbatim>\<open>get_icon()\<close> (\<open>None\<close> when that call raises). \<open>pl_id\<close> is the
  object's identity, which \<^verbatim>\<open>==\<close> compares.
\<close>

record Player =
  pl_id :: ref
  pl_name :: string
  pl_name_full :: string
  pl_name_full_noicon :: string
  pl_team :: ref
  pl_team_color :: color
  pl_character :: string
  pl_color :: color
  pl_icon :: "icon option"

text \<open>\<^verbatim>\<open>ba.Lstr\<close> values, by resource or by value, with their substitutions.\<close>

datatype lstr =
    Str string
  | Lstr_resource string "(string \<times> lstr) list"
  | Lstr_value string "(string \<times> lstr) list"

text \<open>
  Timer callbacks: the bound method \<^verbatim>\<open>self._end_multi_kill\<close>, and
  \<^verbatim>\<open>Call(_apply, name, score, showpoints, color, scale, sound)\<close>. Both act on the record
  that created them. \<open>Timer t c\<close> is \<^verbatim>\<open>_ba.Timer(t, c)\<close>, in seconds.
\<close>

datatype callback =
    End_multi_kill
  | Apply lstr int bool color real "sound option"

datatype timer = Timer real callback

datatype PlayerScoredMessage = PlayerScoredMessage int

text \<open>
  Calls into the engine, in the order made: \<^verbatim>\<open>PopupText(text, color, scale,
  position).autoretain()\<close>, \<^verbatim>\<open>_ba.playsound\<close>, \<^verbatim>\<open>_ba.screenmessage(text, top=True, color,
  image)\<close>, \<^verbatim>\<open>activity.show_zoom_message(text, color=normalized_color(c))\<close> (carrying
  \<open>c\<close>), \<^verbatim>\<open>activity.handlemessage\<close>, \<^verbatim>\<open>_error.print_exception\<close>, and
  \<^verbatim>\<open>_ba.timer(ms, call, timeformat=MILLISECONDS)\<close>.
\<close>

datatype effect =
    PopupText lstr color real vec3
  | Playsound "sound option"
  | Screenmessage lstr color icon
  | Show_zoom_message ref lstr color
  | Handlemessage ref PlayerScoredMessage
  | Print_exception string
  | Timer_ms int callback

text \<open>
  What the code reads from the engine during a call: which objects are still alive,
  \<^verbatim>\<open>actor.node.position\<close> (\<open>None\<close> when the actor has no usable node or the read
  raises), which activities are \<^verbatim>\<open>GameActivity\<close> instances, and
  \<^verbatim>\<open>_ba.getactivity().announce_player_deaths\<close> (\<open>None\<close> when that raises).
\<close>

record world =
  alive :: "ref set"
  node_position :: "ref \<Rightarrow> vec3 option"
  game_activities :: "ref set"
  announce_player_deaths :: "bool option"

text \<open>\<^verbatim>\<open>str(i)\<close> for an integer.\<close>

fun str_nat :: "nat \<Rightarrow> string" where
  "str_nat n =
     (if n < 10 then [''0123456789'' ! n]
      else str_nat (n div 10) @ [''0123456789'' ! (n mod 10)])"

definition str_int :: "int \<Rightarrow> string" where
  "str_int i = (if i < 0 then CHR ''-'' # str_nat (nat (- i)) else str_nat (nat i))"

subsection \<open>\<^verbatim>\<open>PlayerRecord\<close>\<close>

text \<open>
  The fields of \<^verbatim>\<open>PlayerRecord\<close>, private ones without the leading underscore.
  \<open>spaz\<close> and \<open>team\<close> are weak references. The weak reference \<^verbatim>\<open>_stats\<close> is not
  a field here: the methods that call it take its result, the \<^verbatim>\<open>Stats\<close> object or
  \<open>None\<close> once that object is gone, as an argument.
\<close>

record PlayerRecord =
  name :: string
  name_full :: string
  score :: int
  accumscore :: int
  kill_count :: int
  accum_kill_count :: int
  killed_count :: int
  accum_killed_count :: int
  multi_kill_timer :: "timer option"
  multikillcount :: int
  last_player :: "Player option"
  player :: "Player option"
  spaz :: "ref option"
  team :: "ref option"
  streak :: int
  character :: string

record Stats =
  activity :: "ref option"
  player_records :: "(string \<times> PlayerRecord) list"
  orchestrahitsound1 :: "sound option"
  orchestrahitsound2 :: "sound option"
  orchestrahitsound3 :: "sound option"
  orchestrahitsound4 :: "sound option"

definition associate_with_player :: "Player \<Rightarrow> PlayerRecord \<Rightarrow> PlayerRecord" where
  "associate_with_player p r =
     r\<lparr>team := Some (pl_team p),
       character := pl_character p,
       last_player := Some p,
       player := Some p,
       spaz := None,
       streak := 0\<rparr>"

text \<open>
  \<^verbatim>\<open>PlayerRecord.__init__\<close>: the tallies, then \<^verbatim>\<open>associate_with_player\<close>, then
  \<^verbatim>\<open>_spaz\<close>, \<^verbatim>\<open>_team\<close> and \<^verbatim>\<open>streak\<close> once more. \<^verbatim>\<open>character\<close> has no value before
  the association sets it.
\<close>

definition PlayerRecord_init :: "string \<Rightarrow> string \<Rightarrow> Player \<Rightarrow> PlayerRecord" where
  "PlayerRecord_init nm nm_full p =
     (associate_with_player p
        \<lparr>name = nm, name_full = nm_full,
         score = 0, accumscore = 0,
         kill_count = 0, accum_kill_count = 0,
         killed_count = 0, accum_killed_count = 0,
         multi_kill_timer = None, multikillcount = 0,
         last_player = None, player = None,
         spaz = None, team = None, streak = 0, character = []\<rparr>)
       \<lparr>spaz := None, team := None, streak := 0\<rparr>"

definition get_name :: "PlayerRecord \<Rightarrow> bool \<Rightarrow> string" where
  "get_name r full = (if full then name_full r else name r)"

definition get_spaz :: "world \<Rightarrow> PlayerRecord \<Rightarrow> ref option" where
  "get_spaz w r = (case spaz r of None \<Rightarrow> None | Some a \<Rightarrow> deref (alive w) a)"

definition set_spaz :: "ref option \<Rightarrow> PlayerRecord \<Rightarrow> PlayerRecord" where
  "set_spaz s r = r\<lparr>spaz := s\<rparr>"

definition cancel_multi_kill_timer :: "PlayerRecord \<Rightarrow> PlayerRecord" where
  "cancel_multi_kill_timer r = r\<lparr>multi_kill_timer := None\<rparr>"

definition end_multi_kill :: "PlayerRecord \<Rightarrow> PlayerRecord" where
  "end_multi_kill r = r\<lparr>multi_kill_timer := None, multikillcount := 0\<rparr>"

text \<open>\<^verbatim>\<open>Stats.getactivity\<close> and \<^verbatim>\<open>PlayerRecord.getactivity\<close>.\<close>

definition Stats_getactivity :: "world \<Rightarrow> Stats \<Rightarrow> ref option" where
  "Stats_getactivity w st =
     (case activity st of None \<Rightarrow> None | Some a \<Rightarrow> deref (alive w) a)"

definition getactivity :: "world \<Rightarrow> Stats option \<Rightarrow> ref option" where
  "getactivity w stats =
     (case stats of Some st \<Rightarrow> Stats_getactivity w st | None \<Rightarrow> None)"

text \<open>
  The \<^verbatim>\<open>if\<close>/\<^verbatim>\<open>elif\<close> chain of \<^verbatim>\<open>submit_kill\<close> on the counter: \<^verbatim>\<open>(score, name, delay,
  color, scale, sound)\<close>.
\<close>

definition multikill_award ::
  "Stats \<Rightarrow> int \<Rightarrow> int \<times> lstr option \<times> int \<times> color \<times> real \<times> sound option" where
  "multikill_award stats k =
     (if k = 1 then
        (0, None, 0, [0.0, 0.0, 0.0, 1.0], 1.0, None)
      else if k = 2 then
        (20, Some (Lstr_resource ''twoKillText'' []), 0, [0.1, 1.0, 0.0, 1], 1.0,
         orchestrahitsound1 stats)
      else if k = 3 then
        (40, Some (Lstr_resource ''threeKillText'' []), 300, [1.0, 0.7, 0.0, 1], 1.1,
         orchestrahitsound2 stats)
      else if k = 4 then
        (60, Some (Lstr_resource ''fourKillText'' []), 600, [1.0, 1.0, 0.0, 1], 1.2,
         orchestrahitsound3 stats)
      else if k = 5 then
        (80, Some (Lstr_resource ''fiveKillText'' []), 900, [1.0, 0.5, 0.0, 1], 1.3,
         orchestrahitsound4 stats)
      else
        (100, Some (Lstr_resource ''multiKillText'' [(''${COUNT}'', Str (str_int k))]), 1000,
         [1.0, 0.5, 0.0, 1], 1.3, orchestrahitsound4 stats))"

text \<open>
  \<^verbatim>\<open>submit_kill\<close>. The counter is incremented before \<^verbatim>\<open>assert stats\<close>, so the
  increment stays when the assertion fails. The result is the outcome, the record and the
  engine calls made.
\<close>

definition submit_kill ::
  "Stats option \<Rightarrow> bool \<Rightarrow> PlayerRecord \<Rightarrow> (pyerror + unit) \<times> PlayerRecord \<times> effect list" where
  "submit_kill stats showpoints r =
     (let r = r\<lparr>multikillcount := multikillcount r + 1\<rparr> in
      case stats of
        None \<Rightarrow> (Inl AssertionError, r, [])
      | Some st \<Rightarrow>
          (let (score, name, delay, color, scale, sound) = multikill_award st (multikillcount r);
               fx = (case name of
                       None \<Rightarrow> []
                     | Some n \<Rightarrow>
                         [Timer_ms (300 + delay) (Apply n score showpoints color scale sound)])
           in (Inr (), r\<lparr>multi_kill_timer := Some (Timer 1.0 End_multi_kill)\<rparr>, fx)))"

text \<open>
  The closure \<^verbatim>\<open>_apply\<close> of \<^verbatim>\<open>submit_kill\<close>, run by the engine when its timer fires.
  \<open>rnd\<close> are the three draws of \<^verbatim>\<open>random.random()\<close>.
\<close>

definition submit_kill_apply ::
  "world \<Rightarrow> Stats option \<Rightarrow> vec3 \<Rightarrow> PlayerRecord \<Rightarrow> lstr \<Rightarrow> int \<Rightarrow> bool \<Rightarrow> color \<Rightarrow> real
    \<Rightarrow> sound option \<Rightarrow> PlayerRecord \<times> effect list" where
  "submit_kill_apply w stats rnd r name2 score2 showpoints2 color2 scale2 sound2 =
     (case (case get_spaz w r of None \<Rightarrow> None | Some actor \<Rightarrow> node_position w actor) of
        None \<Rightarrow> (r, [])
      | Some (x, y, z) \<Rightarrow>
          (let (r0, r1, r2) = rnd;
               our_pos = (x + (r0 - 0.5) * 2.0, y + (r1 - 0.5) * 2.0, z + (r2 - 0.5) * 2.0);
               act = getactivity w stats;
               fx1 = (case act of
                        None \<Rightarrow> []
                      | Some a \<Rightarrow>
                          [PopupText
                             (Lstr_value
                                ((if showpoints2 then ''+'' @ str_int score2 @ '' '' else [])
                                   @ ''${N}'')
                                [(''${N}'', name2)])
                             color2 scale2 our_pos]);
               r = r\<lparr>score := score r + score2\<rparr>;
               r = r\<lparr>accumscore := accumscore r + score2\<rparr>;
               fx2 = (if score2 \<noteq> 0 then
                        (case act of
                           None \<Rightarrow> []
                         | Some a \<Rightarrow> [Handlemessage a (PlayerScoredMessage score2)])
                      else [])
           in (r, fx1 @ [Playsound sound2] @ fx2)))"

text \<open>Running a timer callback on the record it belongs to.\<close>

fun run_callback ::
  "world \<Rightarrow> Stats option \<Rightarrow> vec3 \<Rightarrow> callback \<Rightarrow> PlayerRecord \<Rightarrow> PlayerRecord \<times> effect list" where
  "run_callback w stats rnd End_multi_kill r = (end_multi_kill r, [])"
| "run_callback w stats rnd (Apply name2 score2 showpoints2 color2 scale2 sound2) r =
     submit_kill_apply w stats rnd r name2 score2 showpoints2 color2 scale2 sound2"

subsection \<open>\<^verbatim>\<open>Stats\<close>\<close>

text \<open>
  \<^verbatim>\<open>_player_records\<close> is a dictionary from names to records, kept as an association
  list in insertion order. A method that raises may already have changed the state, so
  each returns its outcome together with the state and the engine calls made.
\<close>

definition Stats_init :: Stats where
  "Stats_init =
     \<lparr>activity = None, player_records = [],
      orchestrahitsound1 = None, orchestrahitsound2 = None,
      orchestrahitsound3 = None, orchestrahitsound4 = None\<rparr>"

definition load_activity_media :: "Stats \<Rightarrow> Stats" where
  "load_activity_media st =
     st\<lparr>orchestrahitsound1 := Some ''orchestraHit'',
        orchestrahitsound2 := Some ''orchestraHit2'',
        orchestrahitsound3 := Some ''orchestraHit3'',
        orchestrahitsound4 := Some ''orchestraHit4''\<rparr>"

fun reset_loop :: "(string \<times> PlayerRecord) list \<Rightarrow> (string \<times> PlayerRecord) list" where
  "reset_loop [] = []"
| "reset_loop ((k, p_entry) # rest) = (k, cancel_multi_kill_timer p_entry) # reset_loop rest"

text \<open>
  \<^verbatim>\<open>reset\<close> cancels the timers of the records it is about to drop; the second
  component is those records, which other holders may still reference.
\<close>

definition reset :: "Stats \<Rightarrow> Stats \<times> (string \<times> PlayerRecord) list" where
  "reset st = (st\<lparr>player_records := []\<rparr>, reset_loop (player_records st))"

fun reset_accum_loop :: "(string \<times> PlayerRecord) list \<Rightarrow> (string \<times> PlayerRecord) list" where
  "reset_accum_loop [] = []"
| "reset_accum_loop ((k, s_player) # rest) =
     (k, (cancel_multi_kill_timer s_player)
           \<lparr>accumscore := 0,
            accum_kill_count := 0,
            accum_killed_count := 0,
            streak := 0\<rparr>)
     # reset_accum_loop rest"

definition reset_accum :: "Stats \<Rightarrow> Stats" where
  "reset_accum st = st\<lparr>player_records := reset_accum_loop (player_records st)\<rparr>"

text \<open>
  \<^verbatim>\<open>register_player\<close>: the \<^verbatim>\<open>try\<close> succeeds when the name has a record; the
  \<^verbatim>\<open>KeyError\<close> of a missing name is caught and a new record is stored.
\<close>

definition register_player :: "Player \<Rightarrow> Stats \<Rightarrow> Stats" where
  "register_player p st =
     (let name = pl_name p;
          name_full = pl_name_full p
      in case map_of (player_records st) name of
           Some r \<Rightarrow>
             st\<lparr>player_records :=
                  AList.update name (associate_with_player p r) (player_records st)\<rparr>
         | None \<Rightarrow>
             st\<lparr>player_records :=
                  AList.update name (PlayerRecord_init name name_full p) (player_records st)\<rparr>)"

definition player_got_new_spaz ::
  "world \<Rightarrow> Player \<Rightarrow> ref \<Rightarrow> Stats \<Rightarrow> (pyerror + unit) \<times> Stats" where
  "player_got_new_spaz w p sp st =
     (case map_of (player_records st) (pl_name p) of
        None \<Rightarrow> (Inl KeyError, st)
      | Some record \<Rightarrow>
          if get_spaz w record \<noteq> None then
            (Inl (Exception
                    ''got 2 player_got_new_spaz() messages in a row without a lost-spaz message''),
             st)
          else
            (Inr (),
             st\<lparr>player_records :=
                  AList.update (pl_name p) (set_spaz (Some sp) record) (player_records st)\<rparr>))"

definition player_got_hit :: "Player \<Rightarrow> Stats \<Rightarrow> (pyerror + unit) \<times> Stats" where
  "player_got_hit p st =
     (case map_of (player_records st) (pl_name p) of
        None \<Rightarrow> (Inl KeyError, st)
      | Some s_player \<Rightarrow>
          (Inr (),
           st\<lparr>player_records :=
                AList.update (pl_name p) (s_player\<lparr>streak := 0\<rparr>) (player_records st)\<rparr>))"

text \<open>
  The arguments of \<^verbatim>\<open>player_scored\<close> after the player, with their defaults.
\<close>

record scored_args =
  base_points :: int
  target :: "vec3 option"
  kill :: bool
  victim_player :: "Player option"
  scale :: real
  color :: "color option"
  title :: "lstr option"
  screenmessage :: bool
  display :: bool
  importance :: int
  showpoints :: bool
  big_message :: bool

definition default_scored_args :: scored_args where
  "default_scored_args =
     \<lparr>base_points = 1, target = None, kill = False, victim_player = None, scale = 1.0,
      color = None, title = None, screenmessage = True, display = True, importance = 1,
      showpoints = True, big_message = False\<rparr>"

text \<open>
  The \<^verbatim>\<open>try\<close> block of the big announcement: a missing \<^verbatim>\<open>_activity\<close> fails the
  assertion, which is caught and printed.
\<close>

definition big_message_effects :: "world \<Rightarrow> Player \<Rightarrow> Stats \<Rightarrow> effect list" where
  "big_message_effects w p st =
     (case activity st of
        None \<Rightarrow> [Print_exception ''error showing big_message'']
      | Some a \<Rightarrow>
          (case deref (alive w) a of
             None \<Rightarrow> []
           | Some act \<Rightarrow>
               if act \<in> game_activities w then
                 [Show_zoom_message act
                    (Lstr_resource ''nameScoresText'' [(''${NAME}'', Str (pl_name_full_noicon p))])
                    (pl_team_color p)]
               else []))"

text \<open>
  The score popup over the player's spaz; the position read is in a \<^verbatim>\<open>try\<close> whose
  handler sets \<^verbatim>\<open>our_pos\<close> to \<open>None\<close>.
\<close>

definition score_popup_effects ::
  "world \<Rightarrow> Stats \<Rightarrow> PlayerRecord \<Rightarrow> vec3 option \<Rightarrow> lstr option \<Rightarrow> int \<Rightarrow> color \<Rightarrow> real
    \<Rightarrow> effect list" where
  "score_popup_effects w st s_player target0 title0 points display_color scale0 =
     (case (case get_spaz w s_player of None \<Rightarrow> None | Some sp \<Rightarrow> node_position w sp) of
        None \<Rightarrow> []
      | Some our_pos \<Rightarrow>
          (let target = (case target0 of None \<Rightarrow> our_pos | Some t \<Rightarrow> t);
               display_pos =
                 (fst target,
                  max (fst (snd target)) (fst (snd our_pos) - 2.0),
                  min (snd (snd target)) (snd (snd our_pos) + 2.0))
           in case Stats_getactivity w st of
                None \<Rightarrow> []
              | Some act \<Rightarrow>
                  (let sval =
                     (case title0 of
                        Some t \<Rightarrow>
                          Lstr_value ''+${A} ${B}''
                            [(''${A}'', Str (str_int points)), (''${B}'', t)]
                      | None \<Rightarrow> Lstr_value ''+${A}'' [(''${A}'', Str (str_int points))])
                   in [PopupText sval display_color (1.2 * scale0) display_pos])))"

text \<open>
  \<^verbatim>\<open>_ba.screenmessage(text, top=True, color=c, image=p.get_icon())\<close> inside a \<^verbatim>\<open>try\<close>
  whose handler prints \<open>msg\<close>.
\<close>

definition try_screenmessage :: "lstr \<Rightarrow> color \<Rightarrow> icon option \<Rightarrow> string \<Rightarrow> effect list" where
  "try_screenmessage text c img msg =
     (case img of
        None \<Rightarrow> [Print_exception msg]
      | Some ic \<Rightarrow> [Screenmessage text c ic])"

definition player_scored ::
  "world \<Rightarrow> Player \<Rightarrow> scored_args \<Rightarrow> Stats \<Rightarrow> (pyerror + int) \<times> Stats \<times> effect list" where
  "player_scored w p a st =
     (let name = pl_name p in
      case map_of (player_records st) name of
        None \<Rightarrow> (Inl KeyError, st, [])
      | Some s_player \<Rightarrow>
          (case (if kill a then submit_kill (Some st) (showpoints a) s_player
                 else (Inr (), s_player, [])) of
             (Inl e, s_player, fx0) \<Rightarrow>
               (Inl e, st\<lparr>player_records := AList.update name s_player (player_records st)\<rparr>, fx0)
           | (Inr u, s_player, fx0) \<Rightarrow>
               (let display_color =
                      (case color a of
                         Some c \<Rightarrow> c
                       | None \<Rightarrow>
                           if importance a \<noteq> 1 then [1.0, 1.0, 0.4, 1.0]
                           else [1.0, 1.0, 1.0, 1.0]);
                    points = base_points a;
                    fx1 = (if display a \<and> big_message a then big_message_effects w p st else []);
                    fx2 = (if display a \<and> showpoints a then
                             score_popup_effects w st s_player (target a) (title a) points
                               display_color (scale a)
                           else []);
                    s_player =
                      (if kill a then
                         s_player\<lparr>accum_kill_count := accum_kill_count s_player + 1,
                                  kill_count := kill_count s_player + 1\<rparr>
                       else s_player);
                    fx3 = (if screenmessage a \<and> \<not> kill a then
                             try_screenmessage
                               (Lstr_resource ''nameScoresText'' [(''${NAME}'', Str name)])
                               (pl_color p) (pl_icon p) ''error announcing score''
                           else []);
                    s_player = s_player\<lparr>score := score s_player + points\<rparr>;
                    s_player = s_player\<lparr>accumscore := accumscore s_player + points\<rparr>;
                    fx4 = (if points \<noteq> 0 then
                             (case Stats_getactivity w st of
                                None \<Rightarrow> []
                              | Some act \<Rightarrow> [Handlemessage act (PlayerScoredMessage points)])
                           else [])
                in (Inr points,
                    st\<lparr>player_records := AList.update name s_player (player_records st)\<rparr>,
                    fx0 @ fx1 @ fx2 @ fx3 @ fx4))))"

text \<open>The announcement of \<^verbatim>\<open>player_lost_spaz\<close>, chosen by the killer.\<close>

definition death_announcement :: "Player \<Rightarrow> Player option \<Rightarrow> effect list" where
  "death_announcement p killer =
     (let name = pl_name p; msg = ''error announcing kill'' in
      case killer of
        None \<Rightarrow>
          try_screenmessage (Lstr_resource ''nameDiedText'' [(''${NAME}'', Str name)])
            (pl_color p) (pl_icon p) msg
      | Some k \<Rightarrow>
          if pl_id k = pl_id p then
            try_screenmessage (Lstr_resource ''nameSuicideText'' [(''${NAME}'', Str name)])
              (pl_color p) (pl_icon p) msg
          else if pl_team k = pl_team p then
            try_screenmessage
              (Lstr_resource ''nameBetrayedText''
                 [(''${NAME}'', Str (pl_name k)), (''${VICTIM}'', Str name)])
              (pl_color k) (pl_icon k) msg
          else
            try_screenmessage
              (Lstr_resource ''nameKilledText''
                 [(''${NAME}'', Str (pl_name k)), (''${VICTIM}'', Str name)])
              (pl_color k) (pl_icon k) msg)"

definition player_lost_spaz ::
  "world \<Rightarrow> Player \<Rightarrow> bool \<Rightarrow> Player option \<Rightarrow> Stats \<Rightarrow> (pyerror + unit) \<times> Stats \<times> effect list" where
  "player_lost_spaz w p killed killer st =
     (let name = pl_name p in
      case map_of (player_records st) name of
        None \<Rightarrow> (Inl KeyError, st, [])
      | Some prec \<Rightarrow>
          (let prec = set_spaz None prec;
               prec = prec\<lparr>streak := 0\<rparr>;
               prec = (if killed then
                         prec\<lparr>accum_killed_count := accum_killed_count prec + 1,
                              killed_count := killed_count prec + 1\<rparr>
                       else prec);
               fx = (if killed then
                       (case announce_player_deaths w of
                          None \<Rightarrow> [Print_exception ''error announcing kill'']
                        | Some announce \<Rightarrow> if announce then death_announcement p killer else [])
                     else [])
           in (Inr (), st\<lparr>player_records := AList.update name prec (player_records st)\<rparr>, fx)))"

text \<open>
  The points carried by the deferred award callbacks among a list of engine calls: what
  the timers scheduled by \<^verbatim>\<open>submit_kill\<close> will add to the score when they fire.
\<close>

fun scheduled_bonus :: "effect list \<Rightarrow> int" where
  "scheduled_bonus [] = 0"
| "scheduled_bonus (Timer_ms d (Apply n s sp c sc so) # fx) = s + scheduled_bonus fx"
| "scheduled_bonus (e # fx) = scheduled_bonus fx"

declare str_nat.simps [simp del]

section \<open>Properties of the call adapters\<close>

text \<open>
  A stored keyword named \<^verbatim>\<open>self\<close> makes both constructors fail, and makes a
  \<^verbatim>\<open>WeakMethod\<close> fail when called, dead or alive.
\<close>

lemma keyword_self_raises:
  assumes "has_keyword_self kw"
  shows "Call_init as kw = Inl TypeError"
    and "WeakCall_init weakrefable d as kw = Inl TypeError"
    and "WeakMethod_call run live m as kw w = (Inl TypeError, w)"
  using assms by (simp_all add: Call_init_def WeakCall_init_def WeakMethod_call_def)

text \<open>
  A \<^verbatim>\<open>WeakCall\<close> is built from a bound method exactly when no stored keyword is named
  \<^verbatim>\<open>self\<close> and the instance can be weakly referenced.
\<close>

lemma WeakCall_init_bound_method:
  "WeakCall_init weakrefable d (PyMethod f self # stored) kw =
     (if has_keyword_self kw \<or> self \<notin> weakrefable then Inl TypeError
      else Inr (\<lparr>wcall = Weak \<lparr>func = f, obj = self\<rparr>, wargs = stored, wkeywds = kw\<rparr>, d, []))"
  by (simp add: WeakCall_init_def)

text \<open>
  C5, for stored keywords none of which is named \<^verbatim>\<open>self\<close>. The strong adapter is
  built, and \<^verbatim>\<open>Call(f, a1..an, **kw)(e1..em)\<close> has the outcome of the direct call
  \<^verbatim>\<open>f(a1..an, e1..em, **kw)\<close>, whatever the callable \<open>f\<close>, the stored arguments, the
  extra arguments and the world are.
\<close>

theorem Call_same_as_direct_call:
  assumes "\<not> has_keyword_self kw"
  shows "(\<exists>c. Call_init (f # stored) kw = Inr c
            \<and> Call_call run c extra w = call_value run f (stored @ extra) kw w)
     \<and> Call_then_call run (f # stored) kw extra w = call_value run f (stored @ extra) kw w"
  using assms by (simp add: Call_init_def Call_call_def Call_then_call_def)

text \<open>
  An instance: a function that logs its call, two stored arguments, one keyword and one
  extra argument.
\<close>

theorem Call_same_as_direct_call_witness:
  "\<not> has_keyword_self [(''k'', PyVal (9::int)) :: string \<times> (string, int) pyval]
   \<and> Call_then_call logging_run [PyFunction ''f'', PyVal 1, PyVal 2] [(''k'', PyVal 9)]
        [PyVal 3] []
       = (Inr PyNone, [(''f'', [PyVal 1, PyVal 2, PyVal 3], [(''k'', PyVal 9)])])
   \<and> call_value logging_run (PyFunction ''f'') [PyVal 1, PyVal 2, PyVal 3] [(''k'', PyVal 9)] []
       = (Inr PyNone, [(''f'', [PyVal 1, PyVal 2, PyVal 3], [(''k'', PyVal 9)])])"
proof -
  have h: "\<not> has_keyword_self [(''k'', PyVal (9::int)) :: string \<times> (string, int) pyval]"
    by (simp add: has_keyword_self_def)
  from Call_same_as_direct_call
         [OF h, of "PyFunction ''f''" "[PyVal 1, PyVal 2]" logging_run "[PyVal 3]" "[]"] h
  show ?thesis
    by (simp add: logging_run_def)
qed

text \<open>
  With a stored keyword named \<^verbatim>\<open>self\<close> the adapter is not built:
  \<^verbatim>\<open>Call(f, 1, self=2)(3)\<close> raises \<^verbatim>\<open>TypeError\<close> and \<open>f\<close> is never called, while
  the direct call \<^verbatim>\<open>f(1, 3, self=2)\<close> of a function that accepts any keyword runs it.
\<close>

theorem Call_keyword_self_counterexample:
  "Call_init [PyFunction ''f'', PyVal (1::int)] [(''self'', PyVal 2)] = Inl TypeError
   \<and> Call_then_call logging_run [PyFunction ''f'', PyVal 1] [(''self'', PyVal 2)] [PyVal 3] []
       = (Inl TypeError, [])
   \<and> call_value logging_run (PyFunction ''f'') [PyVal 1, PyVal 3] [(''self'', PyVal 2)] []
       = (Inr PyNone, [(''f'', [PyVal 1, PyVal 3], [(''self'', PyVal 2)])])"
  by (simp add: Call_init_def Call_then_call_def has_keyword_self_def logging_run_def)

text \<open>
  C4. The weak wrappers. A \<^verbatim>\<open>WeakMethod\<close> invoked with positional arguments, and with
  any keywords the call can bind, returns \<^verbatim>\<open>None\<close> and leaves the world as it was when
  its target is dead, whatever the functions would do: no call is made. With a live
  target it calls the underlying function on the target followed by the call's
  arguments. Every \<^verbatim>\<open>WeakCall\<close> that was built from a bound method holds such a
  \<^verbatim>\<open>WeakMethod\<close>, printed no warning, and when called with extra arguments does
  nothing and returns \<^verbatim>\<open>None\<close> for a dead target and otherwise calls the function on
  the target, the stored arguments, the extra arguments and the stored keywords. The
  function and the target of a \<^verbatim>\<open>WeakMethod\<close> are those of the bound method it was
  built from.
\<close>

theorem weak_wrappers_call_or_noop:
  "(obj m \<notin> live \<longrightarrow> WeakMethod_call run live m as [] w = (Inr PyNone, w))
   \<and> (obj m \<in> live \<longrightarrow>
        WeakMethod_call run live m as [] w = run (func m) (PyObj (obj m) # as) [] w)
   \<and> (\<not> has_keyword_self kw0 \<and> obj m \<notin> live \<longrightarrow>
        WeakMethod_call run live m as kw0 w = (Inr PyNone, w))
   \<and> (\<not> has_keyword_self kw0 \<and> obj m \<in> live \<longrightarrow>
        WeakMethod_call run live m as kw0 w = run (func m) (PyObj (obj m) # as) kw0 w)
   \<and> (WeakCall_init weakrefable d (PyMethod f self # stored) kw = Inr (c, d', out) \<longrightarrow>
        wcall c = Weak \<lparr>func = f, obj = self\<rparr> \<and> d' = d \<and> out = []
        \<and> (self \<notin> live \<longrightarrow> WeakCall_call run live c extra w = (Inr PyNone, w))
        \<and> (self \<in> live \<longrightarrow>
             WeakCall_call run live c extra w = run f (PyObj self # stored @ extra) kw w))
   \<and> (WeakMethod_init weakrefable (PyMethod f0 self0) = Inr m \<longrightarrow>
        func m = f0 \<and> obj m = self0)"
  by (auto simp add: WeakMethod_call_def WeakCall_call_def WeakCall_init_def deref_def
        has_keyword_self_def split: if_splits)

text \<open>
  The same wrappers called with their target dead and with their target alive; the
  \<^verbatim>\<open>WeakCall\<close> stores one argument and one keyword.
\<close>

theorem weak_wrappers_call_or_noop_witness:
  "WeakMethod_init {3} (PyMethod ''bar'' 3 :: (string, int) pyval)
       = Inr \<lparr>func = ''bar'', obj = 3\<rparr>
   \<and> WeakMethod_call logging_run {} \<lparr>func = ''bar'', obj = 3\<rparr> [PyVal 5] [] [] = (Inr PyNone, [])
   \<and> WeakMethod_call logging_run {3} \<lparr>func = ''bar'', obj = 3\<rparr> [PyVal 5] [] []
       = (Inr PyNone, [(''bar'', [PyObj 3, PyVal 5], [])])
   \<and> WeakCall_init {3} False [PyMethod ''bar'' 3, PyVal (4::int)] [(''k'', PyVal 9)]
       = Inr (\<lparr>wcall = Weak \<lparr>func = ''bar'', obj = 3\<rparr>, wargs = [PyVal 4],
                wkeywds = [(''k'', PyVal 9)]\<rparr>, False, [])
   \<and> WeakCall_call logging_run {}
        \<lparr>wcall = Weak \<lparr>func = ''bar'', obj = 3\<rparr>, wargs = [PyVal 4],
          wkeywds = [(''k'', PyVal 9)]\<rparr> [PyVal 5] []
       = (Inr PyNone, [])
   \<and> WeakCall_call logging_run {3}
        \<lparr>wcall = Weak \<lparr>func = ''bar'', obj = 3\<rparr>, wargs = [PyVal 4],
          wkeywds = [(''k'', PyVal 9)]\<rparr> [PyVal 5] []
       = (Inr PyNone, [(''bar'', [PyObj 3, PyVal 4, PyVal 5], [(''k'', PyVal 9)])])"
proof -
  let ?m = "\<lparr>func = ''bar'', obj = 3\<rparr> :: string WeakMethod"
  let ?kw = "[(''k'', PyVal 9)] :: (string, int) kwargs"
  let ?c = "\<lparr>wcall = Weak ?m, wargs = [PyVal 4], wkeywds = ?kw\<rparr> :: (string, int) WeakCall"
  have built: "WeakCall_init {3} False [PyMethod ''bar'' 3, PyVal 4] ?kw = Inr (?c, False, [])"
    by (simp add: WeakCall_init_def has_keyword_self_def)
  have nokw: "\<not> has_keyword_self ?kw"
    by (simp add: has_keyword_self_def)
  from weak_wrappers_call_or_noop
         [of ?m "{}" logging_run "[PyVal 5]" "[]" ?kw "{3}" False "''bar''" 3 "[PyVal 4]" ?kw
             ?c False "[]" "[PyVal 5]" "''bar''" 3]
       weak_wrappers_call_or_noop
         [of ?m "{3}" logging_run "[PyVal 5]" "[]" ?kw "{3}" False "''bar''" 3 "[PyVal 4]" ?kw
             ?c False "[]" "[PyVal 5]" "''bar''" 3]
       built nokw
  show ?thesis
    by (simp add: logging_run_def)
qed

section \<open>Properties of the statistics\<close>

subsection \<open>Dictionary updates\<close>

lemma map_of_update_same: "map_of (AList.update k v al) k = Some v"
  by (simp add: update_conv')

lemma map_of_update_other: "n \<noteq> k \<Longrightarrow> map_of (AList.update k v al) n = map_of al n"
  by (simp add: update_conv')

lemma keys_update_existing:
  "map_of al k = Some r \<Longrightarrow> map fst (AList.update k v al) = map fst al"
  by (auto simp add: update_keys dest: map_of_SomeD intro: rev_image_eqI)

subsection \<open>Kills and multi-kill streaks\<close>

lemma submit_kill_live:
  "\<exists>fx. submit_kill (Some st) sp r =
     (Inr (), r\<lparr>multikillcount := multikillcount r + 1,
               multi_kill_timer := Some (Timer 1 End_multi_kill)\<rparr>, fx)"
  by (simp add: submit_kill_def Let_def split: prod.splits)

text \<open>
  When its timer fires, the deferred award adds its points to \<open>score\<close> and
  \<open>accumscore\<close>, provided the player's spaz is still alive and has a position.
\<close>

lemma submit_kill_apply_awards:
  "submit_kill_apply w stats rnd r n s sp c sc so = (r', fx) \<Longrightarrow>
     (case get_spaz w r of None \<Rightarrow> None | Some actor \<Rightarrow> node_position w actor) = Some pos \<Longrightarrow>
     r' = r\<lparr>score := score r + s, accumscore := accumscore r + s\<rparr>"
  by (auto simp add: submit_kill_apply_def Let_def split: prod.splits)

text \<open>
  C2, for a record whose \<^verbatim>\<open>Stats\<close> object is still alive. \<^verbatim>\<open>submit_kill\<close> returns
  normally, increments the multi-kill counter by exactly 1 and changes nothing else in
  the record but the streak timer, which becomes a 1-second timer on
  \<^verbatim>\<open>_end_multi_kill\<close>; running that callback sets the counter to 0 and clears the timer.
  With \<open>k\<close> the counter after the increment, the bonus scheduled is 0 for \<open>k = 1\<close>
  (nothing is scheduled), and one timer carrying 20, 40, 60, 80 points for \<open>k\<close> = 2, 3,
  4, 5 and 100 points for every \<open>k \<ge> 6\<close>.
\<close>

theorem submit_kill_with_live_stats:
  "\<exists>fx r'. submit_kill (Some st) sp r = (Inr (), r', fx)
     \<and> r' = r\<lparr>multikillcount := multikillcount r + 1,
              multi_kill_timer := Some (Timer 1 End_multi_kill)\<rparr>
     \<and> multikillcount r' = multikillcount r + 1
     \<and> multi_kill_timer r' = Some (Timer 1 End_multi_kill)
     \<and> multikillcount (fst (run_callback w stats rnd End_multi_kill r')) = 0
     \<and> multi_kill_timer (fst (run_callback w stats rnd End_multi_kill r')) = None
     \<and> (multikillcount r' = 1 \<longrightarrow> fx = [] \<and> scheduled_bonus fx = 0)
     \<and> (multikillcount r' = 2 \<longrightarrow> length fx = 1 \<and> scheduled_bonus fx = 20)
     \<and> (multikillcount r' = 3 \<longrightarrow> length fx = 1 \<and> scheduled_bonus fx = 40)
     \<and> (multikillcount r' = 4 \<longrightarrow> length fx = 1 \<and> scheduled_bonus fx = 60)
     \<and> (multikillcount r' = 5 \<longrightarrow> length fx = 1 \<and> scheduled_bonus fx = 80)
     \<and> (6 \<le> multikillcount r' \<longrightarrow> length fx = 1 \<and> scheduled_bonus fx = 100)"
  by (simp add: submit_kill_def multikill_award_def end_multi_kill_def Let_def)

text \<open>The third kill of a streak, with the sounds of an activity loaded.\<close>

theorem submit_kill_with_live_stats_witness:
  "let st = load_activity_media Stats_init;
       r = (PlayerRecord_init ''al'' ''Al'' \<lparr>pl_id = 1, pl_name = ''al'', pl_name_full = ''Al'', pl_name_full_noicon = ''Al'',
              pl_team = 7, pl_team_color = [1, 0, 0], pl_character = ''Spaz'',
              pl_color = [1, 0, 0], pl_icon = None\<rparr>)\<lparr>multikillcount := 2\<rparr>
   in \<exists>fx r'. submit_kill (Some st) True r = (Inr (), r', fx)
        \<and> multikillcount r' = 3
        \<and> multi_kill_timer r' = Some (Timer 1 End_multi_kill)
        \<and> multikillcount (end_multi_kill r') = 0
        \<and> multi_kill_timer (end_multi_kill r') = None
        \<and> fx = [Timer_ms 600
                  (Apply (Lstr_resource ''threeKillText'' []) 40 True [1, 0.7, 0, 1] 1.1
                     (Some ''orchestraHit2''))]
        \<and> scheduled_bonus fx = 40"
  using submit_kill_with_live_stats
          [of "load_activity_media Stats_init" True
              "(PlayerRecord_init ''al'' ''Al'' \<lparr>pl_id = 1, pl_name = ''al'', pl_name_full = ''Al'', pl_name_full_noicon = ''Al'',
              pl_team = 7, pl_team_color = [1, 0, 0], pl_character = ''Spaz'',
              pl_color = [1, 0, 0], pl_icon = None\<rparr>)\<lparr>multikillcount := 2\<rparr>"
              "\<lparr>alive = {}, node_position = (\<lambda>a. None), game_activities = {},
              announce_player_deaths = None\<rparr>" None "(0, 0, 0)"]
  by (simp add: Let_def submit_kill_def multikill_award_def end_multi_kill_def
        load_activity_media_def Stats_init_def PlayerRecord_init_def associate_with_player_def)

text \<open>
  For a record whose \<^verbatim>\<open>Stats\<close> object is gone, \<^verbatim>\<open>assert stats\<close> fails after the
  increment: the call raises \<^verbatim>\<open>AssertionError\<close>, the counter is 1 and no timer is armed.
\<close>

theorem submit_kill_dead_stats_counterexample:
  "submit_kill None True (PlayerRecord_init ''al'' ''Al'' \<lparr>pl_id = 1, pl_name = ''al'', pl_name_full = ''Al'', pl_name_full_noicon = ''Al'',
              pl_team = 7, pl_team_color = [1, 0, 0], pl_character = ''Spaz'',
              pl_color = [1, 0, 0], pl_icon = None\<rparr>)
     = (Inl AssertionError, (PlayerRecord_init ''al'' ''Al'' \<lparr>pl_id = 1, pl_name = ''al'', pl_name_full = ''Al'', pl_name_full_noicon = ''Al'',
              pl_team = 7, pl_team_color = [1, 0, 0], pl_character = ''Spaz'',
              pl_color = [1, 0, 0], pl_icon = None\<rparr>)\<lparr>multikillcount := 1\<rparr>, [])
   \<and> multi_kill_timer ((PlayerRecord_init ''al'' ''Al'' \<lparr>pl_id = 1, pl_name = ''al'', pl_name_full = ''Al'', pl_name_full_noicon = ''Al'',
              pl_team = 7, pl_team_color = [1, 0, 0], pl_character = ''Spaz'',
              pl_color = [1, 0, 0], pl_icon = None\<rparr>)\<lparr>multikillcount := 1\<rparr>) = None"
  by (simp add: submit_kill_def PlayerRecord_init_def associate_with_player_def)

subsection \<open>Scoring\<close>

text \<open>
  What \<^verbatim>\<open>player_scored\<close> does to the state of a registered player, with and without
  \<^verbatim>\<open>kill\<close>.
\<close>

lemma player_scored_kill:
  assumes "map_of (player_records st) (pl_name p) = Some r" and "kill a"
  shows "\<exists>fx. player_scored w p a st =
           (Inr (base_points a),
            st\<lparr>player_records :=
                 AList.update (pl_name p)
                   (r\<lparr>multikillcount := multikillcount r + 1,
                      multi_kill_timer := Some (Timer 1 End_multi_kill),
                      accum_kill_count := accum_kill_count r + 1,
                      kill_count := kill_count r + 1,
                      score := score r + base_points a,
                      accumscore := accumscore r + base_points a\<rparr>)
                   (player_records st)\<rparr>, fx)"
proof -
  obtain fx0 where sk: "submit_kill (Some st) (showpoints a) r =
     (Inr (), r\<lparr>multikillcount := multikillcount r + 1,
               multi_kill_timer := Some (Timer 1 End_multi_kill)\<rparr>, fx0)"
    using submit_kill_live by blast
  show ?thesis
    by (simp add: player_scored_def Let_def assms sk)
qed

lemma player_scored_no_kill:
  assumes "map_of (player_records st) (pl_name p) = Some r" and "\<not> kill a"
  shows "\<exists>fx. player_scored w p a st =
           (Inr (base_points a),
            st\<lparr>player_records :=
                 AList.update (pl_name p)
                   (r\<lparr>score := score r + base_points a,
                      accumscore := accumscore r + base_points a\<rparr>)
                   (player_records st)\<rparr>, fx)"
  by (simp add: player_scored_def Let_def assms)

text \<open>
  C1. For a registered player, every call of \<^verbatim>\<open>player_scored\<close> returns
  \<^verbatim>\<open>base_points\<close>, whatever the scale, the importance and the other arguments are, and
  when it returns the player's record has \<open>score\<close> and \<open>accumscore\<close> increased by
  exactly \<^verbatim>\<open>base_points\<close>; the records under all other names and the set of names are
  unchanged.
\<close>

theorem player_scored_adds_base_points:
  assumes "map_of (player_records st) (pl_name p) = Some r"
  shows "\<exists>st' fx r'. player_scored w p a st = (Inr (base_points a), st', fx)
     \<and> map_of (player_records st') (pl_name p) = Some r'
     \<and> score r' = score r + base_points a
     \<and> accumscore r' = accumscore r + base_points a
     \<and> (\<forall>n. n \<noteq> pl_name p \<longrightarrow> map_of (player_records st') n = map_of (player_records st) n)
     \<and> map fst (player_records st') = map fst (player_records st)"
proof (cases "kill a")
  case True
  from player_scored_kill [OF assms True] obtain fx where
    "player_scored w p a st =
           (Inr (base_points a),
            st\<lparr>player_records :=
                 AList.update (pl_name p)
                   (r\<lparr>multikillcount := multikillcount r + 1,
                      multi_kill_timer := Some (Timer 1 End_multi_kill),
                      accum_kill_count := accum_kill_count r + 1,
                      kill_count := kill_count r + 1,
                      score := score r + base_points a,
                      accumscore := accumscore r + base_points a\<rparr>)
                   (player_records st)\<rparr>, fx)"
    by blast
  then show ?thesis
    by (simp add: map_of_update_same map_of_update_other keys_update_existing [OF assms])
next
  case False
  from player_scored_no_kill [OF assms False] obtain fx where
    "player_scored w p a st =
           (Inr (base_points a),
            st\<lparr>player_records :=
                 AList.update (pl_name p)
                   (r\<lparr>score := score r + base_points a,
                      accumscore := accumscore r + base_points a\<rparr>)
                   (player_records st)\<rparr>, fx)"
    by blast
  then show ?thesis
    by (simp add: map_of_update_same map_of_update_other keys_update_existing [OF assms])
qed

text \<open>A kill worth 5 points with scale 2 and importance 3 returns 5 and adds 5.\<close>

theorem player_scored_adds_base_points_witness:
  "let p = \<lparr>pl_id = 1, pl_name = ''al'', pl_name_full = ''Al'', pl_name_full_noicon = ''Al'',
              pl_team = 7, pl_team_color = [1, 0, 0], pl_character = ''Spaz'',
              pl_color = [1, 0, 0], pl_icon = None\<rparr>;
       st = register_player p Stats_init;
       a = default_scored_args\<lparr>base_points := 5, kill := True, scale := 2, importance := 3\<rparr>;
       w = \<lparr>alive = {}, node_position = (\<lambda>a. None), game_activities = {},
              announce_player_deaths = None\<rparr>
   in map_of (player_records st) (pl_name p) = Some (PlayerRecord_init ''al'' ''Al'' p)
      \<and> (\<exists>st' fx r'. player_scored w p a st = (Inr 5, st', fx)
            \<and> map_of (player_records st') ''al'' = Some r'
            \<and> score r' = 5 \<and> accumscore r' = 5
            \<and> map fst (player_records st') = [''al''])"
proof -
  let ?p = "\<lparr>pl_id = 1, pl_name = ''al'', pl_name_full = ''Al'', pl_name_full_noicon = ''Al'',
              pl_team = 7, pl_team_color = [1, 0, 0], pl_character = ''Spaz'',
              pl_color = [1, 0, 0], pl_icon = None\<rparr>"
  let ?st = "register_player ?p Stats_init"
  let ?a = "default_scored_args\<lparr>base_points := 5, kill := True, scale := 2, importance := 3\<rparr>"
  let ?w = "\<lparr>alive = {}, node_position = (\<lambda>a. None), game_activities = {},
              announce_player_deaths = None\<rparr>"
  have h: "map_of (player_records ?st) (pl_name ?p) = Some (PlayerRecord_init ''al'' ''Al'' ?p)"
    by (simp add: register_player_def Stats_init_def Let_def)
  from player_scored_adds_base_points [OF h, of ?w ?a] h show ?thesis
    by (simp add: Let_def register_player_def Stats_init_def PlayerRecord_init_def
          associate_with_player_def player_scored_def submit_kill_def multikill_award_def
          default_scored_args_def Stats_getactivity_def)
qed

text \<open>
  C3. For a registered player, \<^verbatim>\<open>player_scored\<close> with \<^verbatim>\<open>kill=True\<close> increments
  \<open>kill_count\<close> and \<open>accum_kill_count\<close> by exactly 1 each, and with
  \<^verbatim>\<open>kill=False\<close> leaves both unchanged.
\<close>

theorem player_scored_tallies_kills:
  assumes "map_of (player_records st) (pl_name p) = Some r"
  shows "\<exists>st' fx r'. player_scored w p a st = (Inr (base_points a), st', fx)
     \<and> map_of (player_records st') (pl_name p) = Some r'
     \<and> (kill a \<longrightarrow> kill_count r' = kill_count r + 1
                  \<and> accum_kill_count r' = accum_kill_count r + 1)
     \<and> (\<not> kill a \<longrightarrow> kill_count r' = kill_count r
                  \<and> accum_kill_count r' = accum_kill_count r)"
proof (cases "kill a")
  case True
  from player_scored_kill [OF assms True, of w] obtain fx where
    "player_scored w p a st =
           (Inr (base_points a),
            st\<lparr>player_records :=
                 AList.update (pl_name p)
                   (r\<lparr>multikillcount := multikillcount r + 1,
                      multi_kill_timer := Some (Timer 1 End_multi_kill),
                      accum_kill_count := accum_kill_count r + 1,
                      kill_count := kill_count r + 1,
                      score := score r + base_points a,
                      accumscore := accumscore r + base_points a\<rparr>)
                   (player_records st)\<rparr>, fx)"
    by blast
  then show ?thesis
    by (simp add: map_of_update_same True)
next
  case False
  from player_scored_no_kill [OF assms False, of w] obtain fx where
    "player_scored w p a st =
           (Inr (base_points a),
            st\<lparr>player_records :=
                 AList.update (pl_name p)
                   (r\<lparr>score := score r + base_points a,
                      accumscore := accumscore r + base_points a\<rparr>)
                   (player_records st)\<rparr>, fx)"
    by blast
  then show ?thesis
    by (simp add: map_of_update_same False)
qed

text \<open>One call with a kill and one without, on a freshly registered player.\<close>

theorem player_scored_tallies_kills_witness:
  "let p = \<lparr>pl_id = 1, pl_name = ''al'', pl_name_full = ''Al'', pl_name_full_noicon = ''Al'',
              pl_team = 7, pl_team_color = [1, 0, 0], pl_character = ''Spaz'',
              pl_color = [1, 0, 0], pl_icon = None\<rparr>;
       st = register_player p Stats_init;
       w = \<lparr>alive = {}, node_position = (\<lambda>a. None), game_activities = {},
              announce_player_deaths = None\<rparr>
   in map_of (player_records st) (pl_name p) = Some (PlayerRecord_init ''al'' ''Al'' p)
      \<and> (\<exists>st' fx r'. player_scored w p (default_scored_args\<lparr>kill := True\<rparr>) st = (Inr 1, st', fx)
            \<and> map_of (player_records st') ''al'' = Some r'
            \<and> kill_count r' = 1 \<and> accum_kill_count r' = 1)
      \<and> (\<exists>st' fx r'. player_scored w p default_scored_args st = (Inr 1, st', fx)
            \<and> map_of (player_records st') ''al'' = Some r'
            \<and> kill_count r' = 0 \<and> accum_kill_count r' = 0)"
proof -
  let ?p = "\<lparr>pl_id = 1, pl_name = ''al'', pl_name_full = ''Al'', pl_name_full_noicon = ''Al'',
              pl_team = 7, pl_team_color = [1, 0, 0], pl_character = ''Spaz'',
              pl_color = [1, 0, 0], pl_icon = None\<rparr>"
  let ?st = "register_player ?p Stats_init"
  let ?w = "\<lparr>alive = {}, node_position = (\<lambda>a. None), game_activities = {},
              announce_player_deaths = None\<rparr>"
  have h: "map_of (player_records ?st) (pl_name ?p) = Some (PlayerRecord_init ''al'' ''Al'' ?p)"
    by (simp add: register_player_def Stats_init_def Let_def)
  from player_scored_tallies_kills [OF h, of ?w "default_scored_args\<lparr>kill := True\<rparr>"]
       player_scored_tallies_kills [OF h, of ?w default_scored_args] h
  show ?thesis
    by (simp add: Let_def register_player_def Stats_init_def PlayerRecord_init_def
          associate_with_player_def player_scored_def submit_kill_def multikill_award_def
          default_scored_args_def Stats_getactivity_def try_screenmessage_def
          score_popup_effects_def get_spaz_def)
qed

subsection \<open>Losing and getting a spaz\<close>

text \<open>
  C6. For a registered player, \<^verbatim>\<open>player_lost_spaz\<close> clears the record's spaz and sets
  its streak to 0; with \<^verbatim>\<open>killed=True\<close> it increments \<open>killed_count\<close> and
  \<open>accum_killed_count\<close> by exactly 1 each, and with \<^verbatim>\<open>killed=False\<close> both are
  unchanged.
\<close>

theorem player_lost_spaz_effect:
  assumes "map_of (player_records st) (pl_name p) = Some r"
  shows "\<exists>st' fx r'. player_lost_spaz w p killed killer st = (Inr (), st', fx)
     \<and> map_of (player_records st') (pl_name p) = Some r'
     \<and> spaz r' = None
     \<and> streak r' = 0
     \<and> (killed \<longrightarrow> killed_count r' = killed_count r + 1
                  \<and> accum_killed_count r' = accum_killed_count r + 1)
     \<and> (\<not> killed \<longrightarrow> killed_count r' = killed_count r
                  \<and> accum_killed_count r' = accum_killed_count r)"
  by (simp add: player_lost_spaz_def Let_def assms set_spaz_def map_of_update_same)

text \<open>A freshly registered player losing a spaz, killed and not killed.\<close>

theorem player_lost_spaz_effect_witness:
  "let p = \<lparr>pl_id = 1, pl_name = ''al'', pl_name_full = ''Al'', pl_name_full_noicon = ''Al'',
              pl_team = 7, pl_team_color = [1, 0, 0], pl_character = ''Spaz'',
              pl_color = [1, 0, 0], pl_icon = None\<rparr>;
       st = register_player p Stats_init;
       w = \<lparr>alive = {}, node_position = (\<lambda>a. None), game_activities = {},
              announce_player_deaths = None\<rparr>
   in map_of (player_records st) (pl_name p) = Some (PlayerRecord_init ''al'' ''Al'' p)
      \<and> (\<exists>st' fx r'. player_lost_spaz w p True None st = (Inr (), st', fx)
            \<and> map_of (player_records st') ''al'' = Some r'
            \<and> spaz r' = None \<and> streak r' = 0
            \<and> killed_count r' = 1 \<and> accum_killed_count r' = 1)
      \<and> (\<exists>st' fx r'. player_lost_spaz w p False None st = (Inr (), st', fx)
            \<and> map_of (player_records st') ''al'' = Some r'
            \<and> spaz r' = None \<and> streak r' = 0
            \<and> killed_count r' = 0 \<and> accum_killed_count r' = 0)"
proof -
  let ?p = "\<lparr>pl_id = 1, pl_name = ''al'', pl_name_full = ''Al'', pl_name_full_noicon = ''Al'',
              pl_team = 7, pl_team_color = [1, 0, 0], pl_character = ''Spaz'',
              pl_color = [1, 0, 0], pl_icon = None\<rparr>"
  let ?st = "register_player ?p Stats_init"
  let ?w = "\<lparr>alive = {}, node_position = (\<lambda>a. None), game_activities = {},
              announce_player_deaths = None\<rparr>"
  have h: "map_of (player_records ?st) (pl_name ?p) = Some (PlayerRecord_init ''al'' ''Al'' ?p)"
    by (simp add: register_player_def Stats_init_def Let_def)
  from player_lost_spaz_effect [OF h, of ?w True None]
       player_lost_spaz_effect [OF h, of ?w False None] h
  show ?thesis
    by (simp add: Let_def register_player_def Stats_init_def PlayerRecord_init_def
          associate_with_player_def player_lost_spaz_def set_spaz_def)
qed

text \<open>
  C9. For a registered player, \<^verbatim>\<open>player_got_new_spaz\<close> raises exactly when the record
  holds a spaz that is still alive; then the whole state, the record's spaz included, is
  as before. Otherwise it returns normally and the record's spaz is the given actor.
\<close>

theorem player_got_new_spaz_effect:
  assumes "map_of (player_records st) (pl_name p) = Some r"
  shows "isl (fst (player_got_new_spaz w p sp st)) = (\<exists>a. spaz r = Some a \<and> a \<in> alive w)
     \<and> ((\<exists>a. spaz r = Some a \<and> a \<in> alive w) \<longrightarrow>
          snd (player_got_new_spaz w p sp st) = st)
     \<and> (\<not> (\<exists>a. spaz r = Some a \<and> a \<in> alive w) \<longrightarrow>
          (\<exists>st'. player_got_new_spaz w p sp st = (Inr (), st')
             \<and> map_of (player_records st') (pl_name p) = Some (r\<lparr>spaz := Some sp\<rparr>)
             \<and> map fst (player_records st') = map fst (player_records st)))"
  by (auto simp add: player_got_new_spaz_def assms get_spaz_def deref_def set_spaz_def
        map_of_update_same keys_update_existing [OF assms] split: option.splits)

text \<open>
  A first spaz is accepted; a second one is refused while the first is alive, and
  accepted once the first is dead.
\<close>

theorem player_got_new_spaz_effect_witness:
  "let p = \<lparr>pl_id = 1, pl_name = ''al'', pl_name_full = ''Al'', pl_name_full_noicon = ''Al'',
              pl_team = 7, pl_team_color = [1, 0, 0], pl_character = ''Spaz'',
              pl_color = [1, 0, 0], pl_icon = None\<rparr>;
       st = register_player p Stats_init;
       w = \<lparr>alive = {11}, node_position = (\<lambda>a. None), game_activities = {},
              announce_player_deaths = None\<rparr>;
       st' = snd (player_got_new_spaz w p 11 st)
   in map_of (player_records st) (pl_name p) = Some (PlayerRecord_init ''al'' ''Al'' p)
      \<and> fst (player_got_new_spaz w p 11 st) = Inr ()
      \<and> map_of (player_records st') (pl_name p)
           = Some ((PlayerRecord_init ''al'' ''Al'' p)\<lparr>spaz := Some 11\<rparr>)
      \<and> player_got_new_spaz w p 12 st'
           = (Inl (Exception
                ''got 2 player_got_new_spaz() messages in a row without a lost-spaz message''),
              st')
      \<and> fst (player_got_new_spaz (w\<lparr>alive := {}\<rparr>) p 12 st') = Inr ()"
proof -
  let ?p = "\<lparr>pl_id = 1, pl_name = ''al'', pl_name_full = ''Al'', pl_name_full_noicon = ''Al'',
              pl_team = 7, pl_team_color = [1, 0, 0], pl_character = ''Spaz'',
              pl_color = [1, 0, 0], pl_icon = None\<rparr>"
  let ?st = "register_player ?p Stats_init"
  let ?w = "\<lparr>alive = {11}, node_position = (\<lambda>a. None), game_activities = {},
              announce_player_deaths = None\<rparr>"
  let ?st' = "snd (player_got_new_spaz ?w ?p 11 ?st)"
  have h: "map_of (player_records ?st) (pl_name ?p) = Some (PlayerRecord_init ''al'' ''Al'' ?p)"
    by (simp add: register_player_def Stats_init_def Let_def)
  have h': "map_of (player_records ?st') (pl_name ?p)
              = Some ((PlayerRecord_init ''al'' ''Al'' ?p)\<lparr>spaz := Some 11\<rparr>)"
    by (simp add: register_player_def Stats_init_def Let_def player_got_new_spaz_def
          get_spaz_def set_spaz_def PlayerRecord_init_def associate_with_player_def)
  from player_got_new_spaz_effect [OF h, of ?w 11]
       player_got_new_spaz_effect [OF h', of ?w 12] h h'
  show ?thesis
    by (simp add: register_player_def Stats_init_def Let_def player_got_new_spaz_def
          get_spaz_def set_spaz_def deref_def PlayerRecord_init_def associate_with_player_def)
qed

subsection \<open>Resetting and registering\<close>

lemma reset_accum_loop_entries:
  "list_all2
     (\<lambda>(k, r) (k', r').
        k' = k
        \<and> r' = r\<lparr>multi_kill_timer := None, accumscore := 0, accum_kill_count := 0,
                 accum_killed_count := 0, streak := 0\<rparr>)
     xs (reset_accum_loop xs)"
  by (induction xs rule: reset_accum_loop.induct) (simp_all add: cancel_multi_kill_timer_def)

text \<open>
  C7. \<^verbatim>\<open>reset_accum\<close> keeps the registered names, in order, and in each record sets
  \<open>accumscore\<close>, \<open>accum_kill_count\<close>, \<open>accum_killed_count\<close> and \<open>streak\<close> to 0
  and clears the multi-kill timer, while \<open>score\<close>, \<open>kill_count\<close>,
  \<open>killed_count\<close>, \<open>name\<close> and \<open>name_full\<close> stay as they were.
\<close>

theorem reset_accum_effect:
  "list_all2
     (\<lambda>(k, r) (k', r').
        k' = k
        \<and> accumscore r' = 0 \<and> accum_kill_count r' = 0 \<and> accum_killed_count r' = 0
        \<and> streak r' = 0 \<and> multi_kill_timer r' = None
        \<and> score r' = score r \<and> kill_count r' = kill_count r
        \<and> killed_count r' = killed_count r
        \<and> name r' = name r \<and> name_full r' = name_full r)
     (player_records st) (player_records (reset_accum st))"
proof -
  have "list_all2
     (\<lambda>(k, r) (k', r').
        k' = k
        \<and> r' = r\<lparr>multi_kill_timer := None, accumscore := 0, accum_kill_count := 0,
                 accum_killed_count := 0, streak := 0\<rparr>)
     (player_records st) (player_records (reset_accum st))"
    by (simp add: reset_accum_def reset_accum_loop_entries)
  then show ?thesis
    by (rule list_all2_mono) auto
qed

text \<open>A player with one kill, before and after \<^verbatim>\<open>reset_accum\<close>.\<close>

theorem reset_accum_effect_witness:
  "let p = \<lparr>pl_id = 1, pl_name = ''al'', pl_name_full = ''Al'', pl_name_full_noicon = ''Al'',
              pl_team = 7, pl_team_color = [1, 0, 0], pl_character = ''Spaz'',
              pl_color = [1, 0, 0], pl_icon = None\<rparr>;
       st = fst (snd (player_scored \<lparr>alive = {}, node_position = (\<lambda>a. None), game_activities = {},
              announce_player_deaths = None\<rparr> p
                        (default_scored_args\<lparr>kill := True\<rparr>)
                        (register_player p Stats_init)))
   in map (\<lambda>(k, r). (k, score r, accumscore r, kill_count r, accum_kill_count r,
                      multi_kill_timer r))
          (player_records st)
        = [(''al'', 1, 1, 1, 1, Some (Timer 1 End_multi_kill))]
      \<and> map (\<lambda>(k, r). (k, score r, accumscore r, kill_count r, accum_kill_count r,
                      multi_kill_timer r))
          (player_records (reset_accum st))
        = [(''al'', 1, 0, 1, 0, None)]"
  using reset_accum_effect
          [of "fst (snd (player_scored \<lparr>alive = {}, node_position = (\<lambda>a. None), game_activities = {},
              announce_player_deaths = None\<rparr> \<lparr>pl_id = 1, pl_name = ''al'', pl_name_full = ''Al'', pl_name_full_noicon = ''Al'',
              pl_team = 7, pl_team_color = [1, 0, 0], pl_character = ''Spaz'',
              pl_color = [1, 0, 0], pl_icon = None\<rparr>
                        (default_scored_args\<lparr>kill := True\<rparr>)
                        (register_player \<lparr>pl_id = 1, pl_name = ''al'', pl_name_full = ''Al'', pl_name_full_noicon = ''Al'',
              pl_team = 7, pl_team_color = [1, 0, 0], pl_character = ''Spaz'',
              pl_color = [1, 0, 0], pl_icon = None\<rparr> Stats_init)))"]
  by (simp add: Let_def register_player_def Stats_init_def PlayerRecord_init_def
        associate_with_player_def player_scored_def submit_kill_def multikill_award_def
        default_scored_args_def Stats_getactivity_def reset_accum_def
        cancel_multi_kill_timer_def)

text \<open>
  C8. \<^verbatim>\<open>register_player\<close> for a name that has a record keeps that record and its six
  tallies, changing only the association (team, character, player references, spaz
  cleared, streak zeroed), and adds no name; for a name without a record it appends a
  record under that name whose six tallies are 0.
\<close>

theorem register_player_effect:
  "(map_of (player_records st) (pl_name p) = Some r \<longrightarrow>
      (\<exists>r'. map_of (player_records (register_player p st)) (pl_name p) = Some r'
         \<and> r' = r\<lparr>team := Some (pl_team p), character := pl_character p,
                  last_player := Some p, player := Some p, spaz := None, streak := 0\<rparr>
         \<and> score r' = score r \<and> accumscore r' = accumscore r
         \<and> kill_count r' = kill_count r \<and> accum_kill_count r' = accum_kill_count r
         \<and> killed_count r' = killed_count r \<and> accum_killed_count r' = accum_killed_count r
         \<and> map fst (player_records (register_player p st)) = map fst (player_records st)))
   \<and> (map_of (player_records st) (pl_name p) = None \<longrightarrow>
      (\<exists>r'. map_of (player_records (register_player p st)) (pl_name p) = Some r'
         \<and> name r' = pl_name p \<and> name_full r' = pl_name_full p
         \<and> score r' = 0 \<and> accumscore r' = 0
         \<and> kill_count r' = 0 \<and> accum_kill_count r' = 0
         \<and> killed_count r' = 0 \<and> accum_killed_count r' = 0
         \<and> map fst (player_records (register_player p st))
             = map fst (player_records st) @ [pl_name p]))"
proof (intro conjI impI)
  assume ex: "map_of (player_records st) (pl_name p) = Some r"
  show "\<exists>r'. map_of (player_records (register_player p st)) (pl_name p) = Some r'
         \<and> r' = r\<lparr>team := Some (pl_team p), character := pl_character p,
                  last_player := Some p, player := Some p, spaz := None, streak := 0\<rparr>
         \<and> score r' = score r \<and> accumscore r' = accumscore r
         \<and> kill_count r' = kill_count r \<and> accum_kill_count r' = accum_kill_count r
         \<and> killed_count r' = killed_count r \<and> accum_killed_count r' = accum_killed_count r
         \<and> map fst (player_records (register_player p st)) = map fst (player_records st)"
    by (simp add: register_player_def Let_def ex map_of_update_same
          keys_update_existing [OF ex] associate_with_player_def)
next
  assume fresh: "map_of (player_records st) (pl_name p) = None"
  then have absent: "pl_name p \<notin> fst ` set (player_records st)"
    by (simp add: map_of_eq_None_iff)
  show "\<exists>r'. map_of (player_records (register_player p st)) (pl_name p) = Some r'
         \<and> name r' = pl_name p \<and> name_full r' = pl_name_full p
         \<and> score r' = 0 \<and> accumscore r' = 0
         \<and> kill_count r' = 0 \<and> accum_kill_count r' = 0
         \<and> killed_count r' = 0 \<and> accum_killed_count r' = 0
         \<and> map fst (player_records (register_player p st))
             = map fst (player_records st) @ [pl_name p]"
    using absent
    by (simp add: register_player_def Let_def fresh map_of_update_same update_keys
          associate_with_player_def PlayerRecord_init_def)
qed

text \<open>
  A first registration, a score, and a second registration of the same name with another
  character.
\<close>

theorem register_player_effect_witness:
  "let p = \<lparr>pl_id = 1, pl_name = ''al'', pl_name_full = ''Al'', pl_name_full_noicon = ''Al'',
              pl_team = 7, pl_team_color = [1, 0, 0], pl_character = ''Spaz'',
              pl_color = [1, 0, 0], pl_icon = None\<rparr>;
       st1 = register_player p Stats_init;
       st2 = fst (snd (player_scored \<lparr>alive = {}, node_position = (\<lambda>a. None), game_activities = {},
              announce_player_deaths = None\<rparr> p default_scored_args st1));
       st3 = register_player (p\<lparr>pl_character := ''Zoe''\<rparr>) st2
   in map_of (player_records Stats_init) (pl_name p) = None
      \<and> (\<exists>r'. map_of (player_records st1) ''al'' = Some r'
            \<and> score r' = 0 \<and> accumscore r' = 0 \<and> kill_count r' = 0
            \<and> accum_kill_count r' = 0 \<and> killed_count r' = 0 \<and> accum_killed_count r' = 0
            \<and> map fst (player_records st1) = [''al''])
      \<and> (\<exists>r r'. map_of (player_records st2) ''al'' = Some r
            \<and> map_of (player_records st3) ''al'' = Some r'
            \<and> score r = 1 \<and> score r' = 1 \<and> accumscore r' = 1
            \<and> character r = ''Spaz'' \<and> character r' = ''Zoe''
            \<and> map fst (player_records st3) = [''al''])"
proof -
  let ?p = "\<lparr>pl_id = 1, pl_name = ''al'', pl_name_full = ''Al'', pl_name_full_noicon = ''Al'',
              pl_team = 7, pl_team_color = [1, 0, 0], pl_character = ''Spaz'',
              pl_color = [1, 0, 0], pl_icon = None\<rparr>"
  let ?st1 = "register_player ?p Stats_init"
  let ?st2 = "fst (snd (player_scored \<lparr>alive = {}, node_position = (\<lambda>a. None), game_activities = {},
              announce_player_deaths = None\<rparr> ?p default_scored_args ?st1))"
  let ?r = "(PlayerRecord_init ''al'' ''Al'' ?p)\<lparr>score := 1, accumscore := 1\<rparr>"
  have fresh: "map_of (player_records Stats_init) (pl_name ?p) = None"
    by (simp add: Stats_init_def)
  have ex: "map_of (player_records ?st2) (pl_name (?p\<lparr>pl_character := ''Zoe''\<rparr>)) = Some ?r"
    by (simp add: Let_def register_player_def Stats_init_def PlayerRecord_init_def
          associate_with_player_def player_scored_def default_scored_args_def)
  from register_player_effect [of Stats_init ?p ?r]
       register_player_effect [of ?st2 "?p\<lparr>pl_character := ''Zoe''\<rparr>" ?r] fresh ex
  show ?thesis
    by (simp add: Let_def register_player_def Stats_init_def PlayerRecord_init_def
          associate_with_player_def player_scored_def default_scored_args_def)
qed

end
